theory Spec2Isabelle
  imports Main "HOL-Library.Word"
begin

section \<open>Machine types and values crossing the N-API boundary\<close>

text \<open>
  The addon \<^verbatim>\<open>zstd_native.cpp\<close> is compiled for a 64-bit target: \<^verbatim>\<open>size_t\<close> and
  \<^verbatim>\<open>unsigned long long\<close> are 64-bit words, \<^verbatim>\<open>int\<close> is a 32-bit word read signed.
  A buffer is the list of its bytes; a buffer that exists in memory has fewer than
  \<open>2 ^ 64\<close> bytes, which theorems about non-empty buffers state as a hypothesis.
\<close>

type_synonym byte = "8 word"
type_synonym size_t = "64 word"
type_synonym int32 = "32 word"
type_synonym int64 = "64 word"

text \<open>
  A JavaScript number argument is modelled by its value when that value is an integer;
  numbers with a fractional part, \<^verbatim>\<open>NaN\<close> and the infinities are left out. The addon
  reads a number only through N-API's conversions. \<^verbatim>\<open>Int32Value()\<close> keeps the bottom
  32 bits of the integer, so it wraps around modulo \<open>2 ^ 32\<close>. \<^verbatim>\<open>Int64Value()\<close>
  returns the integer itself inside the range of \<^verbatim>\<open>int64_t\<close> and the nearest end of that
  range outside it: \<open>2 ^ 63 - 1\<close> for every number from \<open>2 ^ 63\<close> on.
\<close>

definition Int32Value :: "int \<Rightarrow> int32" where
  "Int32Value v = word_of_int v"

definition Int64Value :: "int \<Rightarrow> int64" where
  "Int64Value v =
     (if 2 ^ 63 \<le> v then 2 ^ 63 - 1
      else if v \<le> - (2 ^ 63) then - (2 ^ 63)
      else word_of_int v)"

datatype js_value =
    Undefined
  | Null
  | Boolean bool
  | Number int
  | String string
  | Buffer "byte list"

fun IsNumber :: "js_value \<Rightarrow> bool" where
  "IsNumber (Number _) = True"
| "IsNumber _ = False"

fun IsBuffer :: "js_value \<Rightarrow> bool" where
  "IsBuffer (Buffer _) = True"
| "IsBuffer _ = False"

fun As_Number :: "js_value \<Rightarrow> int" where
  "As_Number (Number v) = v"
| "As_Number _ = 0"

fun As_Buffer :: "js_value \<Rightarrow> byte list" where
  "As_Buffer (Buffer b) = b"
| "As_Buffer _ = []"

text \<open>\<^verbatim>\<open>info.Length()\<close> and \<^verbatim>\<open>info[i]\<close>; N-API yields \<^verbatim>\<open>undefined\<close> past the last argument.\<close>

definition arg :: "js_value list \<Rightarrow> nat \<Rightarrow> js_value" where
  "arg info i = (if i < length info then info ! i else Undefined)"

text \<open>
  The exception pending in JavaScript when a call returns: \<^verbatim>\<open>Napi::TypeError\<close> or
  \<^verbatim>\<open>Napi::Error\<close>, each with its message. The helper functions throw
  \<^verbatim>\<open>std::runtime_error\<close>; its \<^verbatim>\<open>what()\<close> string is the \<open>Inl\<close> of their result.
\<close>

datatype js_exception = TypeError string | Error string

subsection \<open>\<^verbatim>\<open>std::to_string\<close> on unsigned values\<close>

definition digit_char :: "nat \<Rightarrow> char" where
  "digit_char d = ''0123456789'' ! d"

fun to_string :: "nat \<Rightarrow> string" where
  "to_string n = (if n < 10 then [digit_char n] else to_string (n div 10) @ [digit_char (n mod 10)])"

declare to_string.simps [simp del]

section \<open>Constants and the limit registry\<close>

definition DEFAULT_LEVEL :: int32 where "DEFAULT_LEVEL = 3"
definition MIN_LEVEL :: int32 where "MIN_LEVEL = 1"
definition MAX_LEVEL :: int32 where "MAX_LEVEL = 22"

definition DEFAULT_MAX_INPUT_SIZE :: size_t where "DEFAULT_MAX_INPUT_SIZE = push_bit 31 1"
definition DEFAULT_MAX_OUTPUT_SIZE :: size_t where "DEFAULT_MAX_OUTPUT_SIZE = push_bit 31 1"

definition SIZE_MAX :: size_t where "SIZE_MAX = - 1"

text \<open>The globals \<^verbatim>\<open>g_max_input_size\<close> and \<^verbatim>\<open>g_max_output_size\<close>, guarded by \<^verbatim>\<open>g_size_mutex\<close>.\<close>

record limits =
  g_max_input_size :: size_t
  g_max_output_size :: size_t

definition initial_limits :: limits where
  "initial_limits = \<lparr>g_max_input_size = DEFAULT_MAX_INPUT_SIZE, g_max_output_size = DEFAULT_MAX_OUTPUT_SIZE\<rparr>"

section \<open>Validation helpers\<close>

definition validateLevel :: "int32 \<Rightarrow> string + int32" where
  "validateLevel level =
     (if sint level < sint MIN_LEVEL \<or> sint level > sint MAX_LEVEL
      then Inl (''Compression level must be between '' @ to_string (nat (sint MIN_LEVEL)) @
                '' and '' @ to_string (nat (sint MAX_LEVEL)))
      else Inr level)"

definition validateSize :: "size_t \<Rightarrow> size_t \<Rightarrow> string \<Rightarrow> string + unit" where
  "validateSize sz limit context =
     (if sz > limit
      then Inl (context @ '' size '' @ to_string (unat sz) @
                '' exceeds maximum allowed size '' @ to_string (unat limit))
      else Inr ())"

definition safeConvertToSizeT :: "int64 \<Rightarrow> string \<Rightarrow> string + size_t" where
  "safeConvertToSizeT v context =
     (if sint v < 0 then Inl (context @ '' cannot be negative'')
      else if v > SIZE_MAX then Inl (context @ '' is too large'')
      else Inr v)"

section \<open>Limit registry operations\<close>

text \<open>
  Each setter takes the registry and the call's arguments and returns the registry after
  the call with either the pending exception or \<^verbatim>\<open>undefined\<close>.
\<close>

definition SetMaxInputSize :: "limits \<Rightarrow> js_value list \<Rightarrow> limits \<times> (js_exception + js_value)" where
  "SetMaxInputSize g info =
     (if length info < 1 \<or> \<not> IsNumber (arg info 0)
      then (g, Inl (TypeError ''Expected a number argument''))
      else
        let v = Int64Value (As_Number (arg info 0)) in
        case safeConvertToSizeT v ''Input size limit'' of
          Inl msg \<Rightarrow> (g, Inl (Error msg))
        | Inr new_size \<Rightarrow> (g\<lparr>g_max_input_size := new_size\<rparr>, Inr Undefined))"

definition SetMaxOutputSize :: "limits \<Rightarrow> js_value list \<Rightarrow> limits \<times> (js_exception + js_value)" where
  "SetMaxOutputSize g info =
     (if length info < 1 \<or> \<not> IsNumber (arg info 0)
      then (g, Inl (TypeError ''Expected a number argument''))
      else
        let v = Int64Value (As_Number (arg info 0)) in
        case safeConvertToSizeT v ''Output size limit'' of
          Inl msg \<Rightarrow> (g, Inl (Error msg))
        | Inr new_size \<Rightarrow> (g\<lparr>g_max_output_size := new_size\<rparr>, Inr Undefined))"

subsection \<open>\<^verbatim>\<open>static_cast<double>\<close> of a size\<close>






section \<open>The codec library\<close>

text \<open>
  libzstd is linked in, not part of this module. Its entry points are parameters of the
  model, with the argument lists of \<^verbatim>\<open>zstd.h\<close>: a primitive that writes to a destination
  buffer takes the buffer as allocated and returns its return code together with the
  buffer's content after the call. Memory is not bounded in the model: allocating an
  output vector always succeeds.
\<close>

record codec =
  ZSTD_compressBound :: "size_t \<Rightarrow> size_t"
  ZSTD_compress :: "byte list \<Rightarrow> size_t \<Rightarrow> byte list \<Rightarrow> size_t \<Rightarrow> int32 \<Rightarrow> size_t \<times> byte list"
  ZSTD_getFrameContentSize :: "byte list \<Rightarrow> size_t \<Rightarrow> 64 word"
  ZSTD_decompress :: "byte list \<Rightarrow> size_t \<Rightarrow> byte list \<Rightarrow> size_t \<Rightarrow> size_t \<times> byte list"
  ZSTD_getErrorName :: "size_t \<Rightarrow> string"

text \<open>
  Three items of libzstd's public interface are fixed by its headers and are needed as
  they are. \<^verbatim>\<open>zstd.h\<close> defines the two values \<^verbatim>\<open>ZSTD_getFrameContentSize\<close> returns in
  place of a size,
  \<^verbatim>\<open>#define ZSTD_CONTENTSIZE_UNKNOWN (0ULL - 1)\<close> and
  \<^verbatim>\<open>#define ZSTD_CONTENTSIZE_ERROR (0ULL - 2)\<close>,
  and \<^verbatim>\<open>ZSTD_isError(code)\<close> is \<^verbatim>\<open>code > (size_t)-ZSTD_error_maxCode\<close> with
  \<^verbatim>\<open>ZSTD_error_maxCode = 120\<close>: a return code is an error when it is one of the 119
  largest values of \<^verbatim>\<open>size_t\<close>.
\<close>

definition ZSTD_CONTENTSIZE_UNKNOWN :: "64 word" where
  "ZSTD_CONTENTSIZE_UNKNOWN = 0 - 1"

definition ZSTD_CONTENTSIZE_ERROR :: "64 word" where
  "ZSTD_CONTENTSIZE_ERROR = 0 - 2"

definition ZSTD_error_maxCode :: size_t where
  "ZSTD_error_maxCode = 120"

definition ZSTD_isError :: "size_t \<Rightarrow> bool" where
  "ZSTD_isError code \<longleftrightarrow> code > - ZSTD_error_maxCode"

text \<open>
  What a call did besides returning: the codec primitives it invoked, with their
  arguments, and the output vectors it allocated, in program order.
\<close>

datatype event =
    Call_compressBound size_t
  | Alloc_out size_t
  | Call_compress size_t "byte list" size_t int32
  | Call_isError size_t
  | Call_getErrorName size_t
  | Call_getFrameContentSize "byte list" size_t
  | Call_decompress size_t "byte list" size_t

type_synonym outcome = "event list \<times> (js_exception + byte list)"

section \<open>Codec gateway\<close>

text \<open>
  \<^verbatim>\<open>Compress\<close> and \<^verbatim>\<open>Decompress\<close> enter the critical section of \<^verbatim>\<open>g_size_mutex\<close> twice:
  once to compare the input size with \<^verbatim>\<open>g_max_input_size\<close>, and later to compare the
  output size with \<^verbatim>\<open>g_max_output_size\<close>. Between the two the mutex is free, so the
  functions take the registry as it is at the first critical section (\<open>g1\<close>) and as it
  is at the second (\<open>g2\<close>).
\<close>

definition Compress_steps :: "codec \<Rightarrow> limits \<Rightarrow> limits \<Rightarrow> js_value list \<Rightarrow> outcome" where
  "Compress_steps c g1 g2 info =
     (if length info < 1 \<or> \<not> IsBuffer (arg info 0)
      then ([], Inl (Error ''First argument must be a Buffer''))
      else
        case (if length info > 1 \<and> IsNumber (arg info 1)
              then validateLevel (Int32Value (As_Number (arg info 1)))
              else Inr DEFAULT_LEVEL) of
          Inl msg \<Rightarrow> ([], Inl (Error msg))
        | Inr level \<Rightarrow>
           (let input = As_Buffer (arg info 0);
                srcSize = (of_nat (length input) :: size_t)
            in case validateSize srcSize (g_max_input_size g1) ''Input'' of
                 Inl msg \<Rightarrow> ([], Inl (Error msg))
               | Inr _ \<Rightarrow>
                  (if srcSize = 0 then ([], Inr [])
                   else
                     let bound = ZSTD_compressBound c srcSize in
                     case validateSize bound (g_max_output_size g2) ''Output'' of
                       Inl msg \<Rightarrow> ([Call_compressBound srcSize], Inl (Error msg))
                     | Inr _ \<Rightarrow>
                        (let out = replicate (unat bound) (0 :: byte);
                             (compSize, out') = ZSTD_compress c out bound input srcSize level;
                             tr = [Call_compressBound srcSize, Alloc_out bound,
                                   Call_compress bound input srcSize level, Call_isError compSize]
                         in if ZSTD_isError compSize
                            then (tr @ [Call_getErrorName compSize],
                                  Inl (Error (''Compression failed: '' @ ZSTD_getErrorName c compSize)))
                            else (tr, Inr (take (unat compSize) out'))))))"

definition Decompress_steps :: "codec \<Rightarrow> limits \<Rightarrow> limits \<Rightarrow> js_value list \<Rightarrow> outcome" where
  "Decompress_steps c g1 g2 info =
     (if length info < 1 \<or> \<not> IsBuffer (arg info 0)
      then ([], Inl (Error ''First argument must be a Buffer''))
      else
        let input = As_Buffer (arg info 0);
            srcSize = (of_nat (length input) :: size_t)
        in case validateSize srcSize (g_max_input_size g1) ''Input'' of
             Inl msg \<Rightarrow> ([], Inl (Error msg))
           | Inr _ \<Rightarrow>
              (if srcSize = 0 then ([], Inr [])
               else
                 let decompressedSize = ZSTD_getFrameContentSize c input srcSize;
                     tr = [Call_getFrameContentSize input srcSize, Call_isError decompressedSize]
                 in if ZSTD_isError decompressedSize
                    then (tr @ [Call_getErrorName decompressedSize],
                          Inl (Error (''Invalid compressed data: '' @ ZSTD_getErrorName c decompressedSize)))
                    else if decompressedSize = ZSTD_CONTENTSIZE_UNKNOWN
                    then (tr, Inl (Error ''Cannot decompress: Size unknown (streaming not supported)''))
                    else
                      case validateSize decompressedSize (g_max_output_size g2) ''Output'' of
                        Inl msg \<Rightarrow> (tr, Inl (Error msg))
                      | Inr _ \<Rightarrow>
                         (let out = replicate (unat decompressedSize) (0 :: byte);
                              (result, out') = ZSTD_decompress c out decompressedSize input srcSize;
                              tr' = tr @ [Alloc_out decompressedSize,
                                          Call_decompress decompressedSize input srcSize,
                                          Call_isError result]
                          in if ZSTD_isError result
                             then (tr' @ [Call_getErrorName result],
                                   Inl (Error (''Decompression failed: '' @ ZSTD_getErrorName c result)))
                             else (tr', Inr (take (unat result) out')))))"

text \<open>A call during which no other thread writes the registry finds the same registry twice.\<close>

definition Compress :: "codec \<Rightarrow> limits \<Rightarrow> js_value list \<Rightarrow> outcome" where
  "Compress c g info = Compress_steps c g g info"

definition Decompress :: "codec \<Rightarrow> limits \<Rightarrow> js_value list \<Rightarrow> outcome" where
  "Decompress c g info = Decompress_steps c g g info"

text \<open>
  \<^verbatim>\<open>index.js\<close> wraps the two calls in promises that resolve with the result or reject with
  the exception, and always passes \<^verbatim>\<open>level\<close> on: a caller who leaves the level out
  passes \<^verbatim>\<open>undefined\<close> as second argument.
\<close>

definition zstdCompress :: "codec \<Rightarrow> limits \<Rightarrow> js_value \<Rightarrow> js_value option \<Rightarrow> outcome" where
  "zstdCompress c g buffer level =
     Compress c g [buffer, case level of None \<Rightarrow> Undefined | Some v \<Rightarrow> v]"

definition zstdDecompress :: "codec \<Rightarrow> limits \<Rightarrow> js_value \<Rightarrow> outcome" where
  "zstdDecompress c g buffer = Decompress c g [buffer]"

section \<open>Vocabulary of the specification\<close>

text \<open>
  The specification names failures by kind; the module signals each kind by the message
  of the exception. The messages of the two size checks are those of \<open>validateSize\<close>.
\<close>

definition size_error :: "string \<Rightarrow> size_t \<Rightarrow> size_t \<Rightarrow> js_exception" where
  "size_error context sz limit =
     Error (context @ '' size '' @ to_string (unat sz) @
            '' exceeds maximum allowed size '' @ to_string (unat limit))"

definition InvalidLevel :: js_exception where
  "InvalidLevel = Error ''Compression level must be between 1 and 22''"

definition OutputTooLarge :: "size_t \<Rightarrow> size_t \<Rightarrow> js_exception" where
  "OutputTooLarge sz limit = size_error ''Output'' sz limit"

definition CorruptInput :: "string \<Rightarrow> js_exception" where
  "CorruptInput reason = Error (''Invalid compressed data: '' @ reason)"

definition UnknownSize :: js_exception where
  "UnknownSize = Error ''Cannot decompress: Size unknown (streaming not supported)''"

text \<open>
  The level argument passes \<^verbatim>\<open>Compress\<close>'s second statement: it is missing, or not a
  number, or a number that \<^verbatim>\<open>Int32Value()\<close> reads as a level from 1 to 22.
\<close>

definition level_passes :: "js_value list \<Rightarrow> bool" where
  "level_passes rest \<longleftrightarrow>
     (case rest of
        Number v # _ \<Rightarrow> 1 \<le> sint (Int32Value v) \<and> sint (Int32Value v) \<le> 22
      | _ \<Rightarrow> True)"


text \<open>
  The assumption of the round-trip property, for one input and one level: compressing
  \<open>b\<close> into a buffer of the bound's size succeeds and fills at most that buffer, the
  frame declares the length of \<open>b\<close> as its content size, and decompressing the
  frame into a buffer of that size returns \<open>b\<close>.
\<close>

definition codec_inverse_on :: "codec \<Rightarrow> byte list \<Rightarrow> int32 \<Rightarrow> bool" where
  "codec_inverse_on c b level \<longleftrightarrow>
     (let n = (of_nat (length b) :: size_t);
          bound = ZSTD_compressBound c n;
          (compSize, out') = ZSTD_compress c (replicate (unat bound) 0) bound b n level;
          frame = take (unat compSize) out';
          (result, dec) =
            ZSTD_decompress c (replicate (unat n) 0) n frame (of_nat (length frame))
      in \<not> ZSTD_isError compSize \<and> compSize \<noteq> 0 \<and> unat compSize \<le> length out' \<and>
         ZSTD_getFrameContentSize c frame (of_nat (length frame)) = n \<and>
         \<not> ZSTD_isError n \<and>
         result = n \<and> take (unat n) dec = b)"

definition compressed_frame :: "codec \<Rightarrow> byte list \<Rightarrow> int32 \<Rightarrow> byte list" where
  "compressed_frame c b level =
     (let n = (of_nat (length b) :: size_t);
          bound = ZSTD_compressBound c n;
          (compSize, out') = ZSTD_compress c (replicate (unat bound) 0) bound b n level
      in take (unat compSize) out')"

section \<open>Other threads between the two critical sections\<close>

text \<open>
  The addon's globals are shared by every thread of the process that loads it. While one
  thread is between the two critical sections of \<open>Compress_steps\<close> or
  \<open>Decompress_steps\<close>, other threads may complete setter calls; each setter writes
  its field inside the mutex, so the calls take effect one after the other.
\<close>

datatype setter_call =
    Call_SetMaxInputSize "js_value list"
  | Call_SetMaxOutputSize "js_value list"

fun run_setter :: "limits \<Rightarrow> setter_call \<Rightarrow> limits" where
  "run_setter g (Call_SetMaxInputSize info) = fst (SetMaxInputSize g info)"
| "run_setter g (Call_SetMaxOutputSize info) = fst (SetMaxOutputSize g info)"

fun states_during :: "limits \<Rightarrow> setter_call list \<Rightarrow> limits list" where
  "states_during g [] = [g]"
| "states_during g (s # ss) = g # states_during (run_setter g s) ss"

definition Compress_interleaved ::
    "codec \<Rightarrow> limits \<Rightarrow> setter_call list \<Rightarrow> js_value list \<Rightarrow> outcome" where
  "Compress_interleaved c g others info = Compress_steps c g (foldl run_setter g others) info"

definition Decompress_interleaved ::
    "codec \<Rightarrow> limits \<Rightarrow> setter_call list \<Rightarrow> js_value list \<Rightarrow> outcome" where
  "Decompress_interleaved c g others info = Decompress_steps c g (foldl run_setter g others) info"

section \<open>A small codec for running the gateway\<close>

text \<open>
  An instance of the codec interface on which the gateway can be evaluated: a frame is a
  two-byte little-endian length followed by the bytes as they are; the length
  \<open>65535\<close> stands for a frame that does not declare its content size. Error codes are
  the negated values of \<^verbatim>\<open>zstd_errors.h\<close>.
\<close>

definition stored_compress ::
    "byte list \<Rightarrow> size_t \<Rightarrow> byte list \<Rightarrow> size_t \<Rightarrow> int32 \<Rightarrow> size_t \<times> byte list" where
  "stored_compress dst dstCapacity src srcSize level =
     (if srcSize \<ge> 65535 then (- 1, dst)
      else if unat dstCapacity < unat srcSize + 2 then (- 70, dst)
      else (srcSize + 2,
            [ucast srcSize, ucast (drop_bit 8 srcSize)] @ take (unat srcSize) src @
            drop (unat srcSize + 2) dst))"

definition stored_header :: "byte \<Rightarrow> byte \<Rightarrow> 64 word" where
  "stored_header lo hi = ucast lo + push_bit 8 (ucast hi)"

definition stored_getFrameContentSize :: "byte list \<Rightarrow> size_t \<Rightarrow> 64 word" where
  "stored_getFrameContentSize src srcSize =
     (case src of
        lo # hi # body \<Rightarrow>
          if stored_header lo hi = 65535 then ZSTD_CONTENTSIZE_UNKNOWN else stored_header lo hi
      | _ \<Rightarrow> ZSTD_CONTENTSIZE_ERROR)"

definition stored_decompress ::
    "byte list \<Rightarrow> size_t \<Rightarrow> byte list \<Rightarrow> size_t \<Rightarrow> size_t \<times> byte list" where
  "stored_decompress dst dstCapacity src srcSize =
     (case src of
        lo # hi # body \<Rightarrow>
          if unat (stored_header lo hi) \<noteq> length body then (- 20, dst)
          else if dstCapacity < stored_header lo hi then (- 70, dst)
          else (stored_header lo hi, body @ drop (length body) dst)
      | _ \<Rightarrow> (- 72, dst))"

definition stored_getErrorName :: "size_t \<Rightarrow> string" where
  "stored_getErrorName code =
     (if code = - 1 then ''Error (generic)''
      else if code = - 20 then ''Data corruption detected''
      else if code = - 70 then ''Destination buffer is too small''
      else if code = - 72 then ''Src size is incorrect''
      else ''Unspecified error code'')"

definition stored_codec :: codec where
  "stored_codec =
     \<lparr>ZSTD_compressBound = (\<lambda>srcSize. srcSize + 8),
      ZSTD_compress = stored_compress,
      ZSTD_getFrameContentSize = stored_getFrameContentSize,
      ZSTD_decompress = stored_decompress,
      ZSTD_getErrorName = stored_getErrorName\<rparr>"

section \<open>Facts about the helpers\<close>

lemma to_string_1: "to_string (Suc 0) = ''1''"
  by (simp add: to_string.simps digit_char_def)

lemma to_string_22: "to_string 22 = ''22''"
  by (simp add: to_string.simps digit_char_def)

lemma validateLevel_cases:
  "validateLevel l =
     (if sint l < 1 \<or> 22 < sint l then Inl ''Compression level must be between 1 and 22''
      else Inr l)"
  by (simp add: validateLevel_def MIN_LEVEL_def MAX_LEVEL_def to_string_1 to_string_22)

lemma validateSize_cases:
  "validateSize sz limit context =
     (if limit < sz
      then Inl (context @ '' size '' @ to_string (unat sz) @
                '' exceeds maximum allowed size '' @ to_string (unat limit))
      else Inr ())"
  by (simp add: validateSize_def)

lemma validateSize_zero: "validateSize 0 limit context = Inr ()"
  by (simp add: validateSize_def)

lemma Compress_steps_empty:
  "level_passes rest \<Longrightarrow> Compress_steps c g1 g2 (Buffer [] # rest) = ([], Inr [])"
  by (cases rest; cases "hd rest")
     (simp_all add: Compress_steps_def arg_def validateLevel_cases validateSize_zero
        level_passes_def)

lemma Decompress_steps_empty:
  "Decompress_steps c g1 g2 (Buffer [] # rest) = ([], Inr [])"
  by (simp add: Decompress_steps_def arg_def validateSize_zero)


lemma Compress_steps_absent:
  "\<not> IsNumber v \<Longrightarrow>
   Compress_steps c g1 g2 (Buffer b # v # rest) = Compress_steps c g1 g2 [Buffer b]"
  by (simp add: Compress_steps_def arg_def)

lemma Compress_steps_three:
  "Int32Value x = 3 \<Longrightarrow>
   Compress_steps c g1 g2 (Buffer b # Number x # rest) = Compress_steps c g1 g2 [Buffer b]"
  by (simp add: Compress_steps_def arg_def validateLevel_cases DEFAULT_LEVEL_def)

lemma Compress_steps_default_not_InvalidLevel:
  "snd (Compress_steps c g1 g2 [Buffer b]) \<noteq> Inl InvalidLevel"
  by (simp add: Compress_steps_def arg_def InvalidLevel_def validateSize_cases Let_def
        split: prod.splits)


section \<open>Empty input\<close>

text \<open>
  C2. Whatever the two limits are, \<open>Compress\<close> and \<open>Decompress\<close> applied to a
  zero-length buffer return a zero-length buffer, and the call's trace is empty: no
  bound, compression, frame-size or decompression primitive is invoked, nothing is
  allocated. For \<open>Compress\<close> this holds when the level is left out (also through
  \<^verbatim>\<open>index.js\<close>) and for every level argument that passes the level check, which comes
  before the size check.
\<close>

theorem empty_input_short_circuit:
  "Compress c g [Buffer []] = ([], Inr []) \<and>
   Decompress c g [Buffer []] = ([], Inr []) \<and>
   zstdCompress c g (Buffer []) None = ([], Inr []) \<and>
   zstdDecompress c g (Buffer []) = ([], Inr []) \<and>
   (\<forall>rest. level_passes rest \<longrightarrow> Compress c g (Buffer [] # rest) = ([], Inr []))"
  by (simp add: Compress_def Decompress_def zstdCompress_def zstdDecompress_def
        Compress_steps_empty Decompress_steps_empty level_passes_def)

theorem empty_input_short_circuit_witness:
  "level_passes [Number 22] \<and>
   Compress stored_codec \<lparr>g_max_input_size = 0, g_max_output_size = 0\<rparr> [Buffer [], Number 22] =
     ([], Inr [])"
  using empty_input_short_circuit
    [of stored_codec "\<lparr>g_max_input_size = 0, g_max_output_size = 0\<rparr>"]
  by (simp add: level_passes_def Int32Value_def)

section \<open>Compression level\<close>





section \<open>A level argument that is not a number\<close>

text \<open>
  C10. For every buffer \<open>b\<close>, when the second argument is present and is not a number,
  \<open>Compress\<close> behaves exactly as without a level argument and exactly as with level 3;
  in particular it does not fail with the level error.
\<close>

theorem non_number_level_is_default:
  "\<not> IsNumber v \<Longrightarrow>
     Compress c g (Buffer b # v # rest) = Compress c g [Buffer b] \<and>
     Compress c g (Buffer b # v # rest) = Compress c g [Buffer b, Number 3] \<and>
     snd (Compress c g (Buffer b # v # rest)) \<noteq> Inl InvalidLevel"
  by (simp add: Compress_def Compress_steps_absent Compress_steps_three Int32Value_def
        Compress_steps_default_not_InvalidLevel)

theorem non_number_level_is_default_witness:
  "\<not> IsNumber (String ''9'') \<and>
   Compress stored_codec initial_limits [Buffer [1, 2, 3], String ''9''] =
     ([Call_compressBound 3, Alloc_out 11, Call_compress 11 [1, 2, 3] 3 3, Call_isError 5],
      Inr [3, 0, 1, 2, 3])"
proof -
  have "Compress stored_codec initial_limits [Buffer [1, 2, 3]] =
          ([Call_compressBound 3, Alloc_out 11, Call_compress 11 [1, 2, 3] 3 3, Call_isError 5],
           Inr [3, 0, 1, 2, 3])"
    by code_simp
  then show ?thesis
    using non_number_level_is_default
      [of "String ''9''" stored_codec initial_limits "[1, 2, 3]" "[]"]
    by simp
qed

section \<open>Limit updates\<close>

lemma safeConvertToSizeT_cases:
  "safeConvertToSizeT v context =
     (if sint v < 0 then Inl (context @ '' cannot be negative'') else Inr v)"
  by (simp add: safeConvertToSizeT_def SIZE_MAX_def)

lemma SetMaxInputSize_Number:
  "SetMaxInputSize g (Number v # rest) =
     (if sint (Int64Value v) < 0 then (g, Inl (Error ''Input size limit cannot be negative''))
      else (g\<lparr>g_max_input_size := Int64Value v\<rparr>, Inr Undefined))"
  by (simp add: SetMaxInputSize_def arg_def safeConvertToSizeT_cases)

lemma SetMaxOutputSize_Number:
  "SetMaxOutputSize g (Number v # rest) =
     (if sint (Int64Value v) < 0 then (g, Inl (Error ''Output size limit cannot be negative''))
      else (g\<lparr>g_max_output_size := Int64Value v\<rparr>, Inr Undefined))"
  by (simp add: SetMaxOutputSize_def arg_def safeConvertToSizeT_cases)

lemma SetMaxInputSize_rejected:
  "snd (SetMaxInputSize g info) = Inl e \<Longrightarrow> fst (SetMaxInputSize g info) = g"
  by (auto simp add: SetMaxInputSize_def Let_def split: if_splits sum.splits)

lemma SetMaxOutputSize_rejected:
  "snd (SetMaxOutputSize g info) = Inl e \<Longrightarrow> fst (SetMaxOutputSize g info) = g"
  by (auto simp add: SetMaxOutputSize_def Let_def split: if_splits sum.splits)

lemma Int64Value_large: "2 ^ 63 \<le> v \<Longrightarrow> Int64Value v = 2 ^ 63 - 1"
  by (simp add: Int64Value_def)

lemma sint_Int64Value_large: "\<not> sint (2 ^ 63 - 1 :: int64) < 0"
  by simp

lemma sint_Int64Value_inside:
  "- (2 ^ 63) \<le> v \<Longrightarrow> v < 2 ^ 63 \<Longrightarrow> sint (word_of_int v :: int64) = v"
  by (simp add: signed_of_int signed_take_bit_int_eq_self)

lemma sint_Int64Value_negative: "v < 0 \<Longrightarrow> sint (Int64Value v) < 0"
proof (cases "v \<le> - (2 ^ 63)")
  case True
  moreover assume "v < 0"
  ultimately show ?thesis
    by (simp add: Int64Value_def)
next
  case False
  moreover assume "v < 0"
  ultimately show ?thesis
    by (simp add: Int64Value_def sint_Int64Value_inside)
qed

text \<open>
  C7. The setters refuse a negative number with the message of \<open>safeConvertToSizeT\<close>
  and return the registry they were given, and every failing call of either setter, also
  one whose argument is missing or no number, leaves the registry as it was. A number
  beyond the capacity of \<^verbatim>\<open>size_t\<close> is not refused: \<^verbatim>\<open>Int64Value()\<close> has already
  turned every number from \<open>2 ^ 63\<close> on into \<open>2 ^ 63 - 1\<close>, which is not negative
  and, as every \<^verbatim>\<open>int64_t\<close>, not above \<^verbatim>\<open>SIZE_MAX\<close>; the setter stores \<open>2 ^ 63 - 1\<close>
  and returns \<^verbatim>\<open>undefined\<close>. The test for a value that is too large never holds.
\<close>

theorem setters_accept_beyond_capacity:
  "(2 ^ 63 \<le> v \<longrightarrow>
      SetMaxInputSize g (Number v # rest) = (g\<lparr>g_max_input_size := 2 ^ 63 - 1\<rparr>, Inr Undefined) \<and>
      SetMaxOutputSize g (Number v # rest) = (g\<lparr>g_max_output_size := 2 ^ 63 - 1\<rparr>, Inr Undefined)) \<and>
   (v < 0 \<longrightarrow>
      SetMaxInputSize g (Number v # rest) =
        (g, Inl (Error ''Input size limit cannot be negative'')) \<and>
      SetMaxOutputSize g (Number v # rest) =
        (g, Inl (Error ''Output size limit cannot be negative''))) \<and>
   (\<forall>w. \<not> SIZE_MAX < Int64Value w) \<and>
   (\<forall>info e. snd (SetMaxInputSize g info) = Inl e \<longrightarrow> fst (SetMaxInputSize g info) = g) \<and>
   (\<forall>info e. snd (SetMaxOutputSize g info) = Inl e \<longrightarrow> fst (SetMaxOutputSize g info) = g)"
proof (intro conjI allI impI)
  assume big: "2 ^ 63 \<le> v"
  show "SetMaxInputSize g (Number v # rest) =
          (g\<lparr>g_max_input_size := 2 ^ 63 - 1\<rparr>, Inr Undefined)"
    by (simp add: SetMaxInputSize_Number Int64Value_large [OF big])
  show "SetMaxOutputSize g (Number v # rest) =
          (g\<lparr>g_max_output_size := 2 ^ 63 - 1\<rparr>, Inr Undefined)"
    by (simp add: SetMaxOutputSize_Number Int64Value_large [OF big])
next
  assume neg: "v < 0"
  show "SetMaxInputSize g (Number v # rest) =
          (g, Inl (Error ''Input size limit cannot be negative''))"
    by (simp add: SetMaxInputSize_Number sint_Int64Value_negative [OF neg])
  show "SetMaxOutputSize g (Number v # rest) =
          (g, Inl (Error ''Output size limit cannot be negative''))"
    by (simp add: SetMaxOutputSize_Number sint_Int64Value_negative [OF neg])
next
  show "\<not> SIZE_MAX < Int64Value w" for w
    by (simp add: SIZE_MAX_def)
  show "fst (SetMaxInputSize g info) = g" if "snd (SetMaxInputSize g info) = Inl e" for info e
    using that by (rule SetMaxInputSize_rejected)
  show "fst (SetMaxOutputSize g info) = g" if "snd (SetMaxOutputSize g info) = Inl e" for info e
    using that by (rule SetMaxOutputSize_rejected)
qed

theorem setters_accept_beyond_capacity_witness:
  "(2 :: int) ^ 63 \<le> 2 ^ 64 \<and> uint SIZE_MAX < 2 ^ 64 \<and>
   SetMaxOutputSize initial_limits [Number (2 ^ 64)] =
     (initial_limits\<lparr>g_max_output_size := 2 ^ 63 - 1\<rparr>, Inr Undefined) \<and>
   SetMaxInputSize initial_limits [Number (2 ^ 64)] =
     (initial_limits\<lparr>g_max_input_size := 2 ^ 63 - 1\<rparr>, Inr Undefined)"
proof -
  have h: "(2 :: int) ^ 63 \<le> 2 ^ 64"
    by simp
  have s: "uint SIZE_MAX < 2 ^ 64"
    using unsigned_less [of SIZE_MAX, where ?'a = int] by simp
  note T = setters_accept_beyond_capacity [of "2 ^ 64" initial_limits "[]", THEN conjunct1,
      rule_format, OF h]
  from h s T [THEN conjunct1] T [THEN conjunct2] show ?thesis
    by blast
qed

section \<open>Reading a limit back\<close>










section \<open>The output bound of compression\<close>

lemma srcSize_nonzero:
  "b \<noteq> [] \<Longrightarrow> length b < 2 ^ 64 \<Longrightarrow> (of_nat (length b) :: size_t) \<noteq> 0"
  by (simp add: of_nat_neq_0)

lemma Compress_steps_bound_exceeded:
  assumes "b \<noteq> []" and "length b < 2 ^ 64" and "level_passes rest"
    and "of_nat (length b) \<le> g_max_input_size g1"
    and "g_max_output_size g2 < ZSTD_compressBound c (of_nat (length b))"
  shows "Compress_steps c g1 g2 (Buffer b # rest) =
           ([Call_compressBound (of_nat (length b))],
            Inl (OutputTooLarge (ZSTD_compressBound c (of_nat (length b))) (g_max_output_size g2)))"
proof -
  have nz: "(of_nat (length b) :: size_t) \<noteq> 0"
    using assms(1,2) by (rule srcSize_nonzero)
  have le: "\<not> g_max_input_size g1 < of_nat (length b)"
    using assms(4) by simp
  show ?thesis
    using assms(3,5) nz le
    by (cases rest; cases "hd rest")
       (simp_all add: Compress_steps_def arg_def validateLevel_cases validateSize_cases
          level_passes_def OutputTooLarge_def size_error_def Let_def)
qed

lemma Compress_steps_bound_within:
  assumes "\<not> g_max_output_size g2 < ZSTD_compressBound c (of_nat (length b))"
  shows "snd (Compress_steps c g1 g2 (Buffer b # rest)) \<noteq> Inl (OutputTooLarge sz lim)"
  using assms
  by (cases rest; cases "hd rest")
     (simp_all add: Compress_steps_def arg_def validateLevel_cases validateSize_cases
        OutputTooLarge_def size_error_def Let_def split: prod.splits)

text \<open>
  C4. For a non-empty buffer that passes the level check and the input-size check:
  if the codec's bound for the input length exceeds \<^verbatim>\<open>g_max_output_size\<close>, \<open>Compress\<close>
  fails with the output-size error naming the bound and the limit, its trace holds the
  call of the bound primitive and nothing else, and the outcome is the same whatever the
  compression primitive would do; if the bound does not exceed the limit, \<open>Compress\<close>
  does not fail with an output-size error. The last conjunct is an input that is
  rejected although the compression primitive, given the same arguments, returns 5 bytes
  under a limit of 6.
\<close>

theorem compress_output_bound_check:
  assumes "b \<noteq> []" and "length b < 2 ^ 64" and "level_passes rest"
    and "of_nat (length b) \<le> g_max_input_size g"
  shows
    "(g_max_output_size g < ZSTD_compressBound c (of_nat (length b)) \<longrightarrow>
        Compress c g (Buffer b # rest) =
          ([Call_compressBound (of_nat (length b))],
           Inl (OutputTooLarge (ZSTD_compressBound c (of_nat (length b))) (g_max_output_size g))) \<and>
        (\<forall>f. Compress (c\<lparr>ZSTD_compress := f\<rparr>) g (Buffer b # rest) =
               Compress c g (Buffer b # rest))) \<and>
     (\<not> g_max_output_size g < ZSTD_compressBound c (of_nat (length b)) \<longrightarrow>
        (\<forall>sz lim. snd (Compress c g (Buffer b # rest)) \<noteq> Inl (OutputTooLarge sz lim))) \<and>
     (snd (Compress stored_codec \<lparr>g_max_input_size = 3, g_max_output_size = 6\<rparr> [Buffer [1, 2, 3]]) =
        Inl (OutputTooLarge 11 6) \<and>
      fst (ZSTD_compress stored_codec (replicate 11 0) 11 [1, 2, 3] 3 3) = 5 \<and>
      (5 :: size_t) \<le> 6)"
proof (intro conjI allI impI)
  assume over: "g_max_output_size g < ZSTD_compressBound c (of_nat (length b))"
  show "Compress c g (Buffer b # rest) =
          ([Call_compressBound (of_nat (length b))],
           Inl (OutputTooLarge (ZSTD_compressBound c (of_nat (length b))) (g_max_output_size g)))"
    unfolding Compress_def using assms over by (rule Compress_steps_bound_exceeded)
  show "Compress (c\<lparr>ZSTD_compress := f\<rparr>) g (Buffer b # rest) = Compress c g (Buffer b # rest)"
    for f
    using assms over by (simp add: Compress_def Compress_steps_bound_exceeded)
next
  show "snd (Compress c g (Buffer b # rest)) \<noteq> Inl (OutputTooLarge sz lim)"
    if "\<not> g_max_output_size g < ZSTD_compressBound c (of_nat (length b))" for sz lim
    unfolding Compress_def using that by (rule Compress_steps_bound_within)
next
  show "snd (Compress stored_codec \<lparr>g_max_input_size = 3, g_max_output_size = 6\<rparr> [Buffer [1, 2, 3]]) =
        Inl (OutputTooLarge 11 6)"
    by code_simp
  show "fst (ZSTD_compress stored_codec (replicate 11 0) 11 [1, 2, 3] 3 3) = 5"
    by code_simp
  show "(5 :: size_t) \<le> 6"
    by simp
qed

theorem compress_output_bound_check_witness:
  "[1, 2, 3] \<noteq> ([] :: byte list) \<and> length [1, 2, 3 :: byte] < 2 ^ 64 \<and> level_passes [Number 22] \<and>
   of_nat (length [1, 2, 3 :: byte]) \<le> g_max_input_size \<lparr>g_max_input_size = 3, g_max_output_size = 10\<rparr> \<and>
   g_max_output_size \<lparr>g_max_input_size = 3, g_max_output_size = 10\<rparr> <
     ZSTD_compressBound stored_codec (of_nat (length [1, 2, 3 :: byte])) \<and>
   Compress stored_codec \<lparr>g_max_input_size = 3, g_max_output_size = 10\<rparr> [Buffer [1, 2, 3], Number 22] =
     ([Call_compressBound 3], Inl (Error ''Output size 11 exceeds maximum allowed size 10''))"
proof -
  have h1: "[1, 2, 3] \<noteq> ([] :: byte list)" by simp
  have h2: "length [1, 2, 3 :: byte] < 2 ^ 64" by simp
  have h3: "level_passes [Number 22]" by (simp add: level_passes_def Int32Value_def)
  have h4: "of_nat (length [1, 2, 3 :: byte]) \<le>
              g_max_input_size \<lparr>g_max_input_size = 3, g_max_output_size = 10\<rparr>"
    by simp
  have h5: "g_max_output_size \<lparr>g_max_input_size = 3, g_max_output_size = 10\<rparr> <
              ZSTD_compressBound stored_codec (of_nat (length [1, 2, 3 :: byte]))"
    by (simp add: stored_codec_def)
  have m: "OutputTooLarge (ZSTD_compressBound stored_codec (of_nat (length [1, 2, 3 :: byte])))
             (g_max_output_size \<lparr>g_max_input_size = 3, g_max_output_size = 10\<rparr>) =
           Error ''Output size 11 exceeds maximum allowed size 10''"
    by code_simp
  have c: "Compress stored_codec \<lparr>g_max_input_size = 3, g_max_output_size = 10\<rparr>
             (Buffer [1, 2, 3] # [Number 22]) =
           ([Call_compressBound (of_nat (length [1, 2, 3 :: byte]))],
            Inl (Error ''Output size 11 exceeds maximum allowed size 10''))"
    using compress_output_bound_check [OF h1 h2 h3 h4, of stored_codec, THEN conjunct1, rule_format, OF h5,
      THEN conjunct1]
    by (simp only: m)
  from h1 h2 h3 h4 h5 c show ?thesis by simp
qed

section \<open>Decompression: the declared content size\<close>

lemma ZSTD_isError_UNKNOWN: "ZSTD_isError ZSTD_CONTENTSIZE_UNKNOWN"
  by (simp add: ZSTD_isError_def ZSTD_CONTENTSIZE_UNKNOWN_def ZSTD_error_maxCode_def)

lemma Decompress_steps_nonempty:
  assumes "frame \<noteq> []" and "length frame < 2 ^ 64"
    and "of_nat (length frame) \<le> g_max_input_size g1"
  shows "Decompress_steps c g1 g2 (Buffer frame # rest) =
     (let srcSize = (of_nat (length frame) :: size_t);
          decompressedSize = ZSTD_getFrameContentSize c frame srcSize;
          tr = [Call_getFrameContentSize frame srcSize, Call_isError decompressedSize]
      in if ZSTD_isError decompressedSize
         then (tr @ [Call_getErrorName decompressedSize],
               Inl (CorruptInput (ZSTD_getErrorName c decompressedSize)))
         else if g_max_output_size g2 < decompressedSize
         then (tr, Inl (OutputTooLarge decompressedSize (g_max_output_size g2)))
         else
           (let out = replicate (unat decompressedSize) (0 :: byte);
                (result, out') = ZSTD_decompress c out decompressedSize frame srcSize;
                tr' = tr @ [Alloc_out decompressedSize,
                            Call_decompress decompressedSize frame srcSize,
                            Call_isError result]
            in if ZSTD_isError result
               then (tr' @ [Call_getErrorName result],
                     Inl (Error (''Decompression failed: '' @ ZSTD_getErrorName c result)))
               else (tr', Inr (take (unat result) out'))))"
proof -
  have nz: "(of_nat (length frame) :: size_t) \<noteq> 0"
    using assms(1,2) by (rule srcSize_nonzero)
  have le: "\<not> g_max_input_size g1 < of_nat (length frame)"
    using assms(3) by simp
  have unk: "\<not> ZSTD_isError d \<Longrightarrow> d \<noteq> ZSTD_CONTENTSIZE_UNKNOWN" for d
    using ZSTD_isError_UNKNOWN by auto
  show ?thesis
    using nz le
    by (simp add: Decompress_steps_def arg_def validateSize_cases Let_def unk CorruptInput_def
          OutputTooLarge_def size_error_def)
qed

text \<open>
  C5. A non-empty frame that passes the input-size check and for which
  \<^verbatim>\<open>ZSTD_getFrameContentSize\<close> returns \<^verbatim>\<open>ZSTD_CONTENTSIZE_UNKNOWN\<close> does not reach the
  comparison with that sentinel: the sentinel is the largest \<^verbatim>\<open>size_t\<close>, so the
  preceding \<^verbatim>\<open>ZSTD_isError\<close> test holds for it, and \<open>Decompress\<close> fails with the
  message for malformed data, carrying the codec's name for error code 1, and never
  with the message for an unknown size.
\<close>

theorem unknown_size_reported_as_corrupt:
  assumes "frame \<noteq> []" and "length frame < 2 ^ 64"
    and "of_nat (length frame) \<le> g_max_input_size g"
    and "ZSTD_getFrameContentSize c frame (of_nat (length frame)) = ZSTD_CONTENTSIZE_UNKNOWN"
  shows "Decompress c g (Buffer frame # rest) =
           ([Call_getFrameContentSize frame (of_nat (length frame)),
             Call_isError ZSTD_CONTENTSIZE_UNKNOWN, Call_getErrorName ZSTD_CONTENTSIZE_UNKNOWN],
            Inl (CorruptInput (ZSTD_getErrorName c ZSTD_CONTENTSIZE_UNKNOWN))) \<and>
         snd (Decompress c g (Buffer frame # rest)) \<noteq> Inl UnknownSize"
  using assms(4) ZSTD_isError_UNKNOWN
  by (simp add: Decompress_def Decompress_steps_nonempty [OF assms(1,2,3)] Let_def
        CorruptInput_def UnknownSize_def)

theorem unknown_size_reported_as_corrupt_witness:
  "[255, 255, 7] \<noteq> ([] :: byte list) \<and> length [255, 255, 7 :: byte] < 2 ^ 64 \<and>
   of_nat (length [255, 255, 7 :: byte]) \<le> g_max_input_size initial_limits \<and>
   ZSTD_getFrameContentSize stored_codec [255, 255, 7] (of_nat (length [255, 255, 7 :: byte])) =
     ZSTD_CONTENTSIZE_UNKNOWN \<and>
   snd (Decompress stored_codec initial_limits [Buffer [255, 255, 7]]) =
     Inl (Error ''Invalid compressed data: Error (generic)'')"
proof -
  have h1: "[255, 255, 7] \<noteq> ([] :: byte list)" by simp
  have h2: "length [255, 255, 7 :: byte] < 2 ^ 64" by simp
  have h3: "of_nat (length [255, 255, 7 :: byte]) \<le> g_max_input_size initial_limits"
    by code_simp
  have h4: "ZSTD_getFrameContentSize stored_codec [255, 255, 7]
              (of_nat (length [255, 255, 7 :: byte])) = ZSTD_CONTENTSIZE_UNKNOWN"
    by code_simp
  have m: "CorruptInput (ZSTD_getErrorName stored_codec ZSTD_CONTENTSIZE_UNKNOWN) =
             Error ''Invalid compressed data: Error (generic)''"
    by code_simp
  have "snd (Decompress stored_codec initial_limits (Buffer [255, 255, 7] # [])) =
          Inl (Error ''Invalid compressed data: Error (generic)'')"
    using unknown_size_reported_as_corrupt [OF h1 h2 h3 h4, of "[]", THEN conjunct1]
    by (simp only: m snd_conv)
  with h1 h2 h3 h4 show ?thesis by simp
qed

text \<open>
  C6. A non-empty frame that passes the input-size check, whose declared content size
  is not an error code and exceeds \<^verbatim>\<open>g_max_output_size\<close>, makes \<open>Decompress\<close> fail with
  the output-size error naming the declared size and the limit. The trace holds the
  frame-size query and the error test only: no output vector is allocated and the
  decompression primitive is not invoked. The instance after the theorem is the frame of
  a 1000-byte buffer, compressed under the default limits and decompressed after
  \<^verbatim>\<open>setMaxOutputSize(10)\<close>.
\<close>

theorem decompress_declared_size_check:
  assumes "frame \<noteq> []" and "length frame < 2 ^ 64"
    and "of_nat (length frame) \<le> g_max_input_size g"
    and "\<not> ZSTD_isError (ZSTD_getFrameContentSize c frame (of_nat (length frame)))"
    and "g_max_output_size g < ZSTD_getFrameContentSize c frame (of_nat (length frame))"
  shows "Decompress c g (Buffer frame # rest) =
           ([Call_getFrameContentSize frame (of_nat (length frame)),
             Call_isError (ZSTD_getFrameContentSize c frame (of_nat (length frame)))],
            Inl (OutputTooLarge (ZSTD_getFrameContentSize c frame (of_nat (length frame)))
                   (g_max_output_size g)))"
  using assms(4,5)
  by (simp add: Decompress_def Decompress_steps_nonempty [OF assms(1,2,3)] Let_def)

theorem decompress_declared_size_check_witness:
  "snd (Compress stored_codec initial_limits [Buffer (replicate 1000 65)]) =
     Inr ([232, 3] @ replicate 1000 65) \<and>
   [232, 3] @ replicate 1000 65 \<noteq> ([] :: byte list) \<and>
   length ([232, 3] @ replicate 1000 (65 :: byte)) < 2 ^ 64 \<and>
   of_nat (length ([232, 3] @ replicate 1000 (65 :: byte))) \<le>
     g_max_input_size (fst (SetMaxOutputSize initial_limits [Number 10])) \<and>
   \<not> ZSTD_isError (ZSTD_getFrameContentSize stored_codec ([232, 3] @ replicate 1000 65)
         (of_nat (length ([232, 3] @ replicate 1000 (65 :: byte))))) \<and>
   g_max_output_size (fst (SetMaxOutputSize initial_limits [Number 10])) <
     ZSTD_getFrameContentSize stored_codec ([232, 3] @ replicate 1000 65)
       (of_nat (length ([232, 3] @ replicate 1000 (65 :: byte)))) \<and>
   snd (Decompress stored_codec (fst (SetMaxOutputSize initial_limits [Number 10]))
          [Buffer ([232, 3] @ replicate 1000 65)]) =
     Inl (Error ''Output size 1000 exceeds maximum allowed size 10'')"
proof -
  let ?F = "[232, 3] @ replicate 1000 (65 :: byte)"
  let ?g = "fst (SetMaxOutputSize initial_limits [Number 10])"
  have g: "?g = \<lparr>g_max_input_size = 2147483648, g_max_output_size = 10\<rparr>"
    by code_simp
  have d: "ZSTD_getFrameContentSize stored_codec ?F (of_nat (length ?F)) = 1000"
    by (simp add: stored_codec_def stored_getFrameContentSize_def stored_header_def)
  have c: "snd (Compress stored_codec initial_limits [Buffer (replicate 1000 65)]) = Inr ?F"
    by code_simp
  have h1: "?F \<noteq> []" by simp
  have h2: "length ?F < 2 ^ 64" by simp
  have h3: "of_nat (length ?F) \<le> g_max_input_size ?g"
    by (simp add: g)
  have h4: "\<not> ZSTD_isError (ZSTD_getFrameContentSize stored_codec ?F (of_nat (length ?F)))"
    by (simp only: d) (simp add: ZSTD_isError_def ZSTD_error_maxCode_def)
  have h5: "g_max_output_size ?g < ZSTD_getFrameContentSize stored_codec ?F (of_nat (length ?F))"
    by (simp only: d g) simp
  have m: "OutputTooLarge 1000 10 = Error ''Output size 1000 exceeds maximum allowed size 10''"
    by code_simp
  have "snd (Decompress stored_codec ?g (Buffer ?F # [])) =
          Inl (OutputTooLarge (ZSTD_getFrameContentSize stored_codec ?F (of_nat (length ?F)))
                 (g_max_output_size ?g))"
    using decompress_declared_size_check [OF h1 h2 h3 h4 h5, of "[]"] by (simp only: snd_conv)
  then have r: "snd (Decompress stored_codec ?g [Buffer ?F]) =
          Inl (Error ''Output size 1000 exceeds maximum allowed size 10'')"
    by (simp only: d m) (simp add: g m)
  from c h1 h2 h3 h4 h5 r show ?thesis by (intro conjI)
qed

text \<open>
  Without the premise on the input size the statement fails: a frame of five bytes that
  decompresses to three bytes under the default limits is rejected for its own length
  when \<^verbatim>\<open>g_max_input_size\<close> is 4, although its declared size exceeds a
  \<^verbatim>\<open>g_max_output_size\<close> of 2.
\<close>

theorem decompress_declared_size_counterexample:
  "[3, 0, 1, 2, 3] \<noteq> ([] :: byte list) \<and>
   Decompress stored_codec initial_limits [Buffer [3, 0, 1, 2, 3]] =
     ([Call_getFrameContentSize [3, 0, 1, 2, 3] 5, Call_isError 3, Alloc_out 3,
       Call_decompress 3 [3, 0, 1, 2, 3] 5, Call_isError 3],
      Inr [1, 2, 3]) \<and>
   \<not> ZSTD_isError (ZSTD_getFrameContentSize stored_codec [3, 0, 1, 2, 3] 5) \<and>
   g_max_output_size \<lparr>g_max_input_size = 4, g_max_output_size = 2\<rparr> <
     ZSTD_getFrameContentSize stored_codec [3, 0, 1, 2, 3] 5 \<and>
   Decompress stored_codec \<lparr>g_max_input_size = 4, g_max_output_size = 2\<rparr> [Buffer [3, 0, 1, 2, 3]] =
     ([], Inl (Error ''Input size 5 exceeds maximum allowed size 4'')) \<and>
   Error ''Input size 5 exceeds maximum allowed size 4'' \<noteq> OutputTooLarge 3 2"
  by code_simp

section \<open>Round trip\<close>

lemma Compress_steps_nonempty:
  assumes "b \<noteq> []" and "length b < 2 ^ 64"
    and "1 \<le> sint (Int32Value x)" and "sint (Int32Value x) \<le> 22"
    and "of_nat (length b) \<le> g_max_input_size g1"
    and "ZSTD_compressBound c (of_nat (length b)) \<le> g_max_output_size g2"
  shows "Compress_steps c g1 g2 [Buffer b, Number x] =
     (let srcSize = (of_nat (length b) :: size_t);
          bound = ZSTD_compressBound c srcSize;
          out = replicate (unat bound) (0 :: byte);
          (compSize, out') = ZSTD_compress c out bound b srcSize (Int32Value x);
          tr = [Call_compressBound srcSize, Alloc_out bound,
                Call_compress bound b srcSize (Int32Value x), Call_isError compSize]
      in if ZSTD_isError compSize
         then (tr @ [Call_getErrorName compSize],
               Inl (Error (''Compression failed: '' @ ZSTD_getErrorName c compSize)))
         else (tr, Inr (take (unat compSize) out')))"
proof -
  have nz: "(of_nat (length b) :: size_t) \<noteq> 0"
    using assms(1,2) by (rule srcSize_nonzero)
  have le: "\<not> g_max_input_size g1 < of_nat (length b)"
    using assms(5) by simp
  have le2: "\<not> g_max_output_size g2 < ZSTD_compressBound c (of_nat (length b))"
    using assms(6) by simp
  have lv: "\<not> (sint (Int32Value x) < 1 \<or> 22 < sint (Int32Value x))"
    using assms(3,4) by simp
  show ?thesis
    using nz le le2 lv
    by (simp add: Compress_steps_def arg_def validateLevel_cases validateSize_cases Let_def)
qed

text \<open>
  C1. Let \<open>b\<close> be a buffer no longer than \<^verbatim>\<open>g_max_input_size\<close> and let the level be
  from 1 to 22. The empty buffer round-trips. A non-empty \<open>b\<close> round-trips, that is
  \<open>Compress\<close> returns a frame and \<open>Decompress\<close> of that frame returns \<open>b\<close>,
  provided the codec primitives are inverse on \<open>b\<close> at that level and the three
  remaining size checks pass: the codec's bound for the length of \<open>b\<close> and the
  length of \<open>b\<close> itself do not exceed \<^verbatim>\<open>g_max_output_size\<close>, and the frame is no
  longer than \<^verbatim>\<open>g_max_input_size\<close>.
\<close>

theorem round_trip_within_limits:
  assumes len: "length b < 2 ^ 64"
    and lvl: "1 \<le> sint (Int32Value x)" "sint (Int32Value x) \<le> 22"
    and inp: "of_nat (length b) \<le> g_max_input_size g"
    and bnd: "b \<noteq> [] \<Longrightarrow> ZSTD_compressBound c (of_nat (length b)) \<le> g_max_output_size g"
    and dec: "b \<noteq> [] \<Longrightarrow> of_nat (length b) \<le> g_max_output_size g"
    and frm: "b \<noteq> [] \<Longrightarrow>
                of_nat (length (compressed_frame c b (Int32Value x))) \<le> g_max_input_size g"
    and inv: "b \<noteq> [] \<Longrightarrow> codec_inverse_on c b (Int32Value x)"
  shows "\<exists>frame. snd (Compress c g [Buffer b, Number x]) = Inr frame \<and>
                 snd (Decompress c g [Buffer frame]) = Inr b"
proof (cases "b = []")
  case True
  have "level_passes [Number x]"
    using lvl by (simp add: level_passes_def)
  then have "Compress c g [Buffer [], Number x] = ([], Inr [])"
    unfolding Compress_def by (rule Compress_steps_empty)
  moreover have "Decompress c g [Buffer []] = ([], Inr [])"
    unfolding Decompress_def by (rule Decompress_steps_empty)
  ultimately show ?thesis
    using True by simp
next
  case False
  define n :: size_t where "n = of_nat (length b)"
  define bound where "bound = ZSTD_compressBound c n"
  obtain compSize out' where cmp:
    "ZSTD_compress c (replicate (unat bound) 0) bound b n (Int32Value x) = (compSize, out')"
    by (cases "ZSTD_compress c (replicate (unat bound) 0) bound b n (Int32Value x)")
  define frame where "frame = take (unat compSize) out'"
  obtain result d where dcm:
    "ZSTD_decompress c (replicate (unat n) 0) n frame (of_nat (length frame)) = (result, d)"
    by (cases "ZSTD_decompress c (replicate (unat n) 0) n frame (of_nat (length frame))")
  have I0: "\<not> ZSTD_isError compSize \<and> compSize \<noteq> 0 \<and> unat compSize \<le> length out' \<and>
         ZSTD_getFrameContentSize c frame (of_nat (length frame)) = n \<and>
         \<not> ZSTD_isError n \<and> result = n \<and> take (unat n) d = b"
    using inv [OF False]
    unfolding codec_inverse_on_def Let_def n_def [symmetric] bound_def [symmetric] cmp prod.case
      frame_def [symmetric] dcm .
  then have I: "\<not> ZSTD_isError compSize" "compSize \<noteq> 0" "unat compSize \<le> length out'"
    "ZSTD_getFrameContentSize c frame (of_nat (length frame)) = n"
    "\<not> ZSTD_isError n" "result = n" "take (unat n) d = b"
    by blast+
  have cf: "compressed_frame c b (Int32Value x) = frame"
    using cmp
    by (simp add: compressed_frame_def Let_def n_def [symmetric] bound_def [symmetric] frame_def)
  have flen: "length frame = unat compSize"
    using I(3) by (simp add: frame_def)
  have fsz: "(of_nat (length frame) :: size_t) = compSize"
    by (simp add: flen)
  have fne: "frame \<noteq> []"
    using I(2) flen by (auto simp add: unat_eq_zero)
  have flt: "length frame < 2 ^ 64"
    using unsigned_less [of compSize, where ?'a = nat] by (simp add: flen)
  have C: "Compress c g [Buffer b, Number x] =
             ([Call_compressBound n, Alloc_out bound, Call_compress bound b n (Int32Value x),
               Call_isError compSize], Inr frame)"
    unfolding Compress_def
    using cmp I(1) bnd [OF False]
    by (simp add: Compress_steps_nonempty [OF False len lvl inp] Let_def n_def [symmetric]
          bound_def [symmetric] frame_def)
  have fin: "of_nat (length frame) \<le> g_max_input_size g"
    using frm [OF False] by (simp only: cf)
  have nle: "\<not> g_max_output_size g < n"
    using dec [OF False] by (simp add: n_def)
  have "snd (Decompress c g [Buffer frame]) = Inr (take (unat n) d)"
    unfolding Decompress_def
    using I(4,5,6) dcm nle
    by (simp add: Decompress_steps_nonempty [OF fne flt fin] Let_def)
  with C I(7) show ?thesis
    by simp
qed

theorem round_trip_within_limits_witness:
  "length [1, 2, 3 :: byte] < 2 ^ 64 \<and>
   1 \<le> sint (Int32Value 3) \<and>
   sint (Int32Value 3) \<le> 22 \<and>
   of_nat (length [1, 2, 3 :: byte]) \<le> g_max_input_size initial_limits \<and>
   ZSTD_compressBound stored_codec (of_nat (length [1, 2, 3 :: byte])) \<le>
     g_max_output_size initial_limits \<and>
   of_nat (length [1, 2, 3 :: byte]) \<le> g_max_output_size initial_limits \<and>
   of_nat (length (compressed_frame stored_codec [1, 2, 3]
      (Int32Value 3))) \<le> g_max_input_size initial_limits \<and>
   codec_inverse_on stored_codec [1, 2, 3] (Int32Value 3) \<and>
   snd (Compress stored_codec initial_limits
          [Buffer [1, 2, 3], Number 3]) = Inr [3, 0, 1, 2, 3] \<and>
   snd (Decompress stored_codec initial_limits [Buffer [3, 0, 1, 2, 3]]) = Inr [1, 2, 3]"
proof -
  let ?x = "3 :: int"
  have h1: "length [1, 2, 3 :: byte] < 2 ^ 64" by simp
  have h2: "1 \<le> sint (Int32Value ?x)" by (simp add: Int32Value_def)
  have h3: "sint (Int32Value ?x) \<le> 22" by (simp add: Int32Value_def)
  have h4: "of_nat (length [1, 2, 3 :: byte]) \<le> g_max_input_size initial_limits"
    by code_simp
  have h5: "ZSTD_compressBound stored_codec (of_nat (length [1, 2, 3 :: byte])) \<le>
              g_max_output_size initial_limits"
    by code_simp
  have h6: "of_nat (length [1, 2, 3 :: byte]) \<le> g_max_output_size initial_limits"
    by code_simp
  have h7: "of_nat (length (compressed_frame stored_codec [1, 2, 3] (Int32Value ?x))) \<le>
              g_max_input_size initial_limits"
    by code_simp
  have h8: "codec_inverse_on stored_codec [1, 2, 3] (Int32Value ?x)"
    by code_simp
  have e: "snd (Compress stored_codec initial_limits [Buffer [1, 2, 3], Number ?x]) =
             Inr [3, 0, 1, 2, 3]"
    by code_simp
  obtain frame where f:
    "snd (Compress stored_codec initial_limits [Buffer [1, 2, 3], Number ?x]) = Inr frame"
    "snd (Decompress stored_codec initial_limits [Buffer frame]) = Inr [1, 2, 3]"
    using round_trip_within_limits [OF h1 h2 h3 h4 h5 h6 h7 h8] by blast
  from f(1) e have "frame = [3, 0, 1, 2, 3]"
    by simp
  with f(2) have "snd (Decompress stored_codec initial_limits [Buffer [3, 0, 1, 2, 3]]) = Inr [1, 2, 3]"
    by simp
  with h1 h2 h3 h4 h5 h6 h7 h8 e show ?thesis
    by (intro conjI)
qed

text \<open>
  With the premises on the output limit and on the frame's length left out the round trip
  fails, for a codec that is inverse on the input: after \<^verbatim>\<open>setMaxOutputSize(10)\<close> a
  three-byte buffer with bound 11 is refused by \<open>Compress\<close>, and after
  \<^verbatim>\<open>setMaxInputSize(3)\<close> its five-byte frame is refused by \<open>Decompress\<close>.
\<close>

theorem round_trip_counterexample:
  "codec_inverse_on stored_codec [1, 2, 3] 3 \<and>
   (of_nat (length [1, 2, 3 :: byte]) :: size_t) \<le>
     g_max_input_size (fst (SetMaxOutputSize initial_limits [Number 10])) \<and>
   1 \<le> sint (3 :: int32) \<and> sint (3 :: int32) \<le> 22 \<and>
   Compress stored_codec (fst (SetMaxOutputSize initial_limits [Number 10])) [Buffer [1, 2, 3], Number 3] =
     ([Call_compressBound 3], Inl (Error ''Output size 11 exceeds maximum allowed size 10'')) \<and>
   (of_nat (length [1, 2, 3 :: byte]) :: size_t) \<le>
     g_max_input_size (fst (SetMaxInputSize initial_limits [Number 3])) \<and>
   snd (Compress stored_codec (fst (SetMaxInputSize initial_limits [Number 3])) [Buffer [1, 2, 3], Number 3]) =
     Inr [3, 0, 1, 2, 3] \<and>
   Decompress stored_codec (fst (SetMaxInputSize initial_limits [Number 3])) [Buffer [3, 0, 1, 2, 3]] =
     ([], Inl (Error ''Input size 5 exceeds maximum allowed size 3''))"
  by code_simp

section \<open>The limits a call sees\<close>

lemma Compress_steps_fields:
  "Compress_steps c g1 g2 info =
   Compress_steps c
     \<lparr>g_max_input_size = g_max_input_size g1, g_max_output_size = g_max_output_size g2\<rparr>
     \<lparr>g_max_input_size = g_max_input_size g1, g_max_output_size = g_max_output_size g2\<rparr> info"
  by (simp add: Compress_steps_def Let_def cong del: sum.case_cong_weak if_weak_cong)

lemma Decompress_steps_fields:
  "Decompress_steps c g1 g2 info =
   Decompress_steps c
     \<lparr>g_max_input_size = g_max_input_size g1, g_max_output_size = g_max_output_size g2\<rparr>
     \<lparr>g_max_input_size = g_max_input_size g1, g_max_output_size = g_max_output_size g2\<rparr> info"
  by (simp add: Decompress_steps_def Let_def cong del: sum.case_cong_weak if_weak_cong)

text \<open>
  C9. A call reads \<^verbatim>\<open>g_max_input_size\<close> once, in its first critical section, and
  \<^verbatim>\<open>g_max_output_size\<close> once, in its second: the outcome of \<open>Compress_steps\<close> and
  of \<open>Decompress_steps\<close> depends on the registry only through the input limit found
  at the first and the output limit found at the second. So a setter call that completes
  after a check does not change that check, a setter call that completes between the
  two checks governs the second, and a call interleaved with other threads' setter
  calls behaves as a call on the pair formed of the input limit before them and the
  output limit after them. When no setter call falls between the two checks, both use
  one registry state.
\<close>

theorem limits_read_once_per_check:
  "(g_max_input_size g1 = g_max_input_size h1 \<longrightarrow> g_max_output_size g2 = g_max_output_size h2 \<longrightarrow>
      Compress_steps c g1 g2 info = Compress_steps c h1 h2 info \<and>
      Decompress_steps c g1 g2 info = Decompress_steps c h1 h2 info) \<and>
   Compress_interleaved c g others info =
     Compress c \<lparr>g_max_input_size = g_max_input_size g,
                 g_max_output_size = g_max_output_size (foldl run_setter g others)\<rparr> info \<and>
   Decompress_interleaved c g others info =
     Decompress c \<lparr>g_max_input_size = g_max_input_size g,
                   g_max_output_size = g_max_output_size (foldl run_setter g others)\<rparr> info \<and>
   Compress_interleaved c g [] info = Compress c g info \<and>
   Decompress_interleaved c g [] info = Decompress c g info"
proof (intro conjI impI)
  assume eq: "g_max_input_size g1 = g_max_input_size h1" "g_max_output_size g2 = g_max_output_size h2"
  show "Compress_steps c g1 g2 info = Compress_steps c h1 h2 info"
    by (subst Compress_steps_fields, subst (2) Compress_steps_fields) (simp add: eq)
  show "Decompress_steps c g1 g2 info = Decompress_steps c h1 h2 info"
    by (subst Decompress_steps_fields, subst (2) Decompress_steps_fields) (simp add: eq)
next
  show "Compress_interleaved c g others info =
     Compress c \<lparr>g_max_input_size = g_max_input_size g,
                 g_max_output_size = g_max_output_size (foldl run_setter g others)\<rparr> info"
    unfolding Compress_interleaved_def Compress_def by (rule Compress_steps_fields)
  show "Decompress_interleaved c g others info =
     Decompress c \<lparr>g_max_input_size = g_max_input_size g,
                   g_max_output_size = g_max_output_size (foldl run_setter g others)\<rparr> info"
    unfolding Decompress_interleaved_def Decompress_def by (rule Decompress_steps_fields)
  show "Compress_interleaved c g [] info = Compress c g info"
    by (simp add: Compress_interleaved_def Compress_def)
  show "Decompress_interleaved c g [] info = Decompress c g info"
    by (simp add: Decompress_interleaved_def Decompress_def)
qed

theorem limits_read_once_per_check_witness:
  "g_max_input_size \<lparr>g_max_input_size = 3, g_max_output_size = 10\<rparr> =
     g_max_input_size \<lparr>g_max_input_size = 3, g_max_output_size = 999\<rparr> \<and>
   g_max_output_size \<lparr>g_max_input_size = 2, g_max_output_size = 11\<rparr> =
     g_max_output_size \<lparr>g_max_input_size = 777, g_max_output_size = 11\<rparr> \<and>
   Compress_steps stored_codec \<lparr>g_max_input_size = 3, g_max_output_size = 10\<rparr>
     \<lparr>g_max_input_size = 2, g_max_output_size = 11\<rparr> [Buffer [1, 2, 3]] =
   Compress_steps stored_codec \<lparr>g_max_input_size = 3, g_max_output_size = 999\<rparr>
     \<lparr>g_max_input_size = 777, g_max_output_size = 11\<rparr> [Buffer [1, 2, 3]]"
proof -
  have h1: "g_max_input_size \<lparr>g_max_input_size = 3, g_max_output_size = 10\<rparr> =
     g_max_input_size \<lparr>g_max_input_size = 3, g_max_output_size = 999\<rparr>"
    by simp
  have h2: "g_max_output_size \<lparr>g_max_input_size = 2, g_max_output_size = 11\<rparr> =
     g_max_output_size \<lparr>g_max_input_size = 777, g_max_output_size = 11\<rparr>"
    by simp
  from limits_read_once_per_check [of "\<lparr>g_max_input_size = 3, g_max_output_size = 10\<rparr>"
      "\<lparr>g_max_input_size = 3, g_max_output_size = 999\<rparr>"
      "\<lparr>g_max_input_size = 2, g_max_output_size = 11\<rparr>"
      "\<lparr>g_max_input_size = 777, g_max_output_size = 11\<rparr>" stored_codec "[Buffer [1, 2, 3]]",
      THEN conjunct1, rule_format, OF h1 h2, THEN conjunct1] h1 h2
  show ?thesis by (intro conjI)
qed

text \<open>
  The pair of limits a call uses need not be a state the registry ever had. Starting
  from limits (3, 10), two setter calls of another thread lead through (2, 10) to
  (2, 11); a \<open>Compress\<close> call of three bytes with bound 11 that they interleave
  succeeds, while it fails under each of the three registry states. The same happens to
  a \<open>Decompress\<close> call on a five-byte frame declaring three bytes, from limits (5, 2)
  through (4, 2) to (4, 3).
\<close>

theorem single_snapshot_counterexample:
  "states_during \<lparr>g_max_input_size = 3, g_max_output_size = 10\<rparr>
     [Call_SetMaxInputSize [Number 2], Call_SetMaxOutputSize [Number 11]] =
     [\<lparr>g_max_input_size = 3, g_max_output_size = 10\<rparr>,
      \<lparr>g_max_input_size = 2, g_max_output_size = 10\<rparr>,
      \<lparr>g_max_input_size = 2, g_max_output_size = 11\<rparr>] \<and>
   snd (Compress_interleaved stored_codec \<lparr>g_max_input_size = 3, g_max_output_size = 10\<rparr>
          [Call_SetMaxInputSize [Number 2], Call_SetMaxOutputSize [Number 11]] [Buffer [1, 2, 3]]) =
     Inr [3, 0, 1, 2, 3] \<and>
   snd (Compress stored_codec \<lparr>g_max_input_size = 3, g_max_output_size = 10\<rparr> [Buffer [1, 2, 3]]) =
     Inl (Error ''Output size 11 exceeds maximum allowed size 10'') \<and>
   snd (Compress stored_codec \<lparr>g_max_input_size = 2, g_max_output_size = 10\<rparr> [Buffer [1, 2, 3]]) =
     Inl (Error ''Input size 3 exceeds maximum allowed size 2'') \<and>
   snd (Compress stored_codec \<lparr>g_max_input_size = 2, g_max_output_size = 11\<rparr> [Buffer [1, 2, 3]]) =
     Inl (Error ''Input size 3 exceeds maximum allowed size 2'') \<and>
   states_during \<lparr>g_max_input_size = 5, g_max_output_size = 2\<rparr>
     [Call_SetMaxInputSize [Number 4], Call_SetMaxOutputSize [Number 3]] =
     [\<lparr>g_max_input_size = 5, g_max_output_size = 2\<rparr>,
      \<lparr>g_max_input_size = 4, g_max_output_size = 2\<rparr>,
      \<lparr>g_max_input_size = 4, g_max_output_size = 3\<rparr>] \<and>
   snd (Decompress_interleaved stored_codec \<lparr>g_max_input_size = 5, g_max_output_size = 2\<rparr>
          [Call_SetMaxInputSize [Number 4], Call_SetMaxOutputSize [Number 3]] [Buffer [3, 0, 1, 2, 3]]) =
     Inr [1, 2, 3] \<and>
   snd (Decompress stored_codec \<lparr>g_max_input_size = 5, g_max_output_size = 2\<rparr> [Buffer [3, 0, 1, 2, 3]]) =
     Inl (Error ''Output size 3 exceeds maximum allowed size 2'') \<and>
   snd (Decompress stored_codec \<lparr>g_max_input_size = 4, g_max_output_size = 2\<rparr> [Buffer [3, 0, 1, 2, 3]]) =
     Inl (Error ''Input size 5 exceeds maximum allowed size 4'') \<and>
   snd (Decompress stored_codec \<lparr>g_max_input_size = 4, g_max_output_size = 3\<rparr> [Buffer [3, 0, 1, 2, 3]]) =
     Inl (Error ''Input size 5 exceeds maximum allowed size 4'')"
  by code_simp

end
